theory Spec2Isabelle
  imports Complex_Main "HOL-Library.AList"
begin

section \<open>JavaScript values used by the strategy core\<close>

text \<open>
  The TypeScript sources compute with \<open>number\<close> (IEEE doubles). The embedding idealises
  every finite \<open>number\<close> as a \<^typ>\<open>real\<close>; \<open>Number.POSITIVE_INFINITY\<close> gets a constructor
  of its own where a function can return it. Timestamps and TTLs (milliseconds) are
  \<^typ>\<open>int\<close>. A thrown \<open>Error\<close> is the left summand of a result, carrying its message.
\<close>

datatype js_error = Error string

fun message :: "js_error \<Rightarrow> string" where
  "message (Error m) = m"


text \<open>Template literals print an integral number in decimal.\<close>

definition digit_char :: "nat \<Rightarrow> char" where
  "digit_char d = ''0123456789'' ! d"

fun show_nat :: "nat \<Rightarrow> string" where
  "show_nat n = (if n < 10 then [digit_char n] else show_nat (n div 10) @ [digit_char (n mod 10)])"

declare show_nat.simps [simp del]

definition show_int :: "int \<Rightarrow> string" where
  "show_int i = (if i < 0 then CHR ''-'' # show_nat (nat (- i)) else show_nat (nat i))"


section \<open>Guard engine (bot/src/services/guards.ts)\<close>

text \<open>
  \<open>GuardResult\<close> and \<open>PoolSnapshot\<close> are declared in \<open>types.ts\<close>, which is not among the
  sources; the records carry the fields the two guards below read and write (a snapshot
  with more fields is an extension of \<open>PoolSnapshot\<close>). A \<open>Record<string, number>\<close> is an
  association list in insertion order (\<open>Object.entries\<close>). \<open>undefined\<close> is \<open>None\<close>.
\<close>

record GuardResult =
  triggered :: bool
  reason :: string
  details :: "string option"

record PoolSnapshot =
  poolId :: string
  incentiveAprBps :: real




section \<open>Yield math\<close>



section \<open>Strategy adapter (bot/src/adapters/dex1.adapter.ts)\<close>

text \<open>
  \<open>PoolConfig\<close> has the fields of the pool literals in the configuration module;
  addresses are strings, \<open>bigint\<close> is \<^typ>\<open>int\<close>. The request-intent records
  (\<open>adapter.interface.ts\<close>) and the request records (\<open>types.ts\<close>) carry the fields the
  adapter reads and writes; the request fields are prefixed to keep them apart from
  the pool's. \<open>PoolOnChainState\<close> is never built by this adapter and stays a type variable.
\<close>

record PoolConfig =
  pool_id :: string
  protocol :: string
  pair :: string
  tier :: string
  enabled :: bool
  adapterId :: string
  tokenIn :: string
  target :: string
  pool :: string
  lpToken :: string
  baseApyBps :: real
  rewardTokenSymbol :: string
  rewardRatePerSecond :: real
  protocolFeeBps :: real
  rotationCostBps :: real

record BuildEnterRequestInput =
  in_pool :: PoolConfig
  in_amountIn :: int
  in_minOut :: int
  in_deadline :: int
  in_netApyBps :: real
  in_intendedHoldSeconds :: real

record BuildExitRequestInput =
  out_pool :: PoolConfig
  out_tokenOut :: string
  out_amountIn :: int
  out_minOut :: int
  out_deadline :: int

record VaultEnterRequest =
  enter_target :: string
  enter_pool :: string
  enter_tokenIn :: string
  enter_lpToken :: string
  enter_amountIn :: int
  enter_minOut :: int
  enter_deadline :: int
  enter_data :: string
  enter_pair :: string
  enter_protocol :: string
  enter_netApyBps :: real
  enter_intendedHoldSeconds :: real

record VaultExitRequest =
  exit_target :: string
  exit_pool :: string
  exit_lpToken :: string
  exit_tokenOut :: string
  exit_amountIn :: int
  exit_minOut :: int
  exit_deadline :: int
  exit_data :: string
  exit_pair :: string
  exit_protocol :: string

definition Dex1Adapter_id :: string where
  "Dex1Adapter_id = ''dex1''"

definition Dex1Adapter_fetchPoolState :: "PoolConfig \<Rightarrow> js_error + 'state" where
  "Dex1Adapter_fetchPoolState p = Inl (Error ''Dex1Adapter is disabled in live runtime.'')"

definition Dex1Adapter_estimatePriceImpactBps :: "PoolConfig \<Rightarrow> int \<Rightarrow> js_error + real" where
  "Dex1Adapter_estimatePriceImpactBps p amountIn =
     Inl (Error ''Dex1Adapter is disabled in live runtime.'')"

definition Dex1Adapter_estimateRotationCostBps ::
  "PoolConfig \<Rightarrow> PoolConfig \<Rightarrow> int \<Rightarrow> js_error + real" where
  "Dex1Adapter_estimateRotationCostBps fromPool toPool amountIn =
     Inl (Error ''Dex1Adapter is disabled in live runtime.'')"

definition Dex1Adapter_buildEnterRequest ::
  "BuildEnterRequestInput \<Rightarrow> js_error + VaultEnterRequest" where
  "Dex1Adapter_buildEnterRequest input =
     Inr \<lparr>enter_target = target (in_pool input),
          enter_pool = pool (in_pool input),
          enter_tokenIn = tokenIn (in_pool input),
          enter_lpToken = lpToken (in_pool input),
          enter_amountIn = in_amountIn input,
          enter_minOut = in_minOut input,
          enter_deadline = in_deadline input,
          enter_data = ''0x'',
          enter_pair = pair (in_pool input),
          enter_protocol = protocol (in_pool input),
          enter_netApyBps = in_netApyBps input,
          enter_intendedHoldSeconds = in_intendedHoldSeconds input\<rparr>"

definition Dex1Adapter_buildExitRequest ::
  "BuildExitRequestInput \<Rightarrow> js_error + VaultExitRequest" where
  "Dex1Adapter_buildExitRequest input =
     Inr \<lparr>exit_target = target (out_pool input),
          exit_pool = pool (out_pool input),
          exit_lpToken = lpToken (out_pool input),
          exit_tokenOut = out_tokenOut input,
          exit_amountIn = out_amountIn input,
          exit_minOut = out_minOut input,
          exit_deadline = out_deadline input,
          exit_data = ''0x'',
          exit_pair = pair (out_pool input),
          exit_protocol = protocol (out_pool input)\<rparr>"

text \<open>A pool routed to the adapter, and a request intent for it.\<close>

definition dex1_pool :: PoolConfig where
  "dex1_pool =
     \<lparr>pool_id = ''dex1-usdc-mon'', protocol = ''Dex1'', pair = ''USDC/MON'', tier = ''A'',
      enabled = True, adapterId = ''dex1'', tokenIn = ''0x01'', target = ''0x02'',
      pool = ''0x03'', lpToken = ''0x04'', baseApyBps = 300, rewardTokenSymbol = ''MON'',
      rewardRatePerSecond = 0, protocolFeeBps = 8, rotationCostBps = 12\<rparr>"

definition dex1_enter_input :: BuildEnterRequestInput where
  "dex1_enter_input =
     \<lparr>in_pool = dex1_pool, in_amountIn = 1000000, in_minOut = 990000,
      in_deadline = 1800, in_netApyBps = 292, in_intendedHoldSeconds = 86400\<rparr>"

definition dex1_exit_input :: BuildExitRequestInput where
  "dex1_exit_input =
     \<lparr>out_pool = dex1_pool, out_tokenOut = ''0x01'', out_amountIn = 1000000,
      out_minOut = 990000, out_deadline = 1800\<rparr>"

section \<open>Price oracle\<close>

text \<open>
  \<open>LivePriceOracle\<close> is a class with a cache, a rate-limit deadline, a warning log
  and telemetry counters. Its methods are functions from the object and the world to a
  result, the object and the world.
  \<^item> The world has the clock (\<open>Date.now()\<close>), the ids of every upstream request sent
    (each request is \<open>GET {baseUrl}/simple/price?ids=...\<close>, determined by its ids) and
    the lines given to \<open>console.warn\<close>.
  \<^item> \<open>Net\<close> is what the upstream does with a request if one is sent: how long it takes
    and how it ends. \<open>fetch\<close> rejecting (network error, or the abort after \<open>timeoutMs\<close>) is
    \<open>FetchRejected\<close>; a body that \<open>response.json()\<close> or the reads of it throw on is
    \<open>BodyUnreadable\<close>; otherwise the body maps an id to its \<open>usd\<close> field, which is a
    finite number, a non-finite one, or absent or not a number.
  \<^item> A thrown error that no \<open>catch\<close> handles rejects the promise: the result is \<open>Inl\<close>.
  \<^item> The private readonly fields \<open>rateLimitCooldownMs\<close>, \<open>staleFallbackTtlMs\<close> and
    \<open>warningCooldownMs\<close> are set once by the constructor from the readonly config; they are
    functions of the config here, and the three optional config fields carry the
    prefix \<open>cfg_\<close>. The field \<open>value\<close> of a cache entry is \<open>entry_value\<close>.
  \<^item> \<open>trim\<close> and \<open>toUpperCase\<close> are modelled on ASCII.
  \<^item> Time passes while a request is in flight and between lookups; the synchronous
    steps of one lookup read the same clock.
\<close>

record CacheEntry =
  entry_value :: real
  expiresAt :: int

record PriceOracleTelemetry =
  cacheFreshHits :: nat
  staleFallbackHits :: nat
  stableFallbackHits :: nat
  networkFetchSuccesses :: nat
  fetchFailures :: nat

record LivePriceOracleConfig =
  baseUrl :: string
  stableSymbols :: "string list"
  coingeckoIdBySymbol :: "string \<rightharpoonup> string"
  timeoutMs :: int
  cacheTtlMs :: int
  cfg_rateLimitCooldownMs :: "int option"
  cfg_staleFallbackTtlMs :: "int option"
  cfg_warningCooldownMs :: "int option"

record LivePriceOracle =
  cache :: "string \<rightharpoonup> CacheEntry"
  rateLimitedUntilMs :: int
  warningLastLoggedAt :: "string \<rightharpoonup> int"
  telemetry :: PriceOracleTelemetry

record World =
  clock :: int
  httpLog :: "string list list"
  warnLog :: "string list"

datatype usd = UsdNumber real | UsdNotFinite | UsdAbsent

datatype body = BodyUnreadable string | BodyJson "string \<Rightarrow> usd"

datatype reply = FetchRejected string | HttpResponse nat body

record Net =
  latencyMs :: nat
  reply :: reply

text \<open>The field initialisers of the class and the three settings the constructor computes.\<close>

definition LivePriceOracle_new :: LivePriceOracle where
  "LivePriceOracle_new =
     \<lparr>cache = Map.empty, rateLimitedUntilMs = 0, warningLastLoggedAt = Map.empty,
      telemetry = \<lparr>cacheFreshHits = 0, staleFallbackHits = 0, stableFallbackHits = 0,
                   networkFetchSuccesses = 0, fetchFailures = 0\<rparr>\<rparr>"

definition rateLimitCooldownMs :: "LivePriceOracleConfig \<Rightarrow> int" where
  "rateLimitCooldownMs cfg =
     max 1000 (case cfg_rateLimitCooldownMs cfg of None \<Rightarrow> 300000 | Some ms \<Rightarrow> ms)"

definition staleFallbackTtlMs :: "LivePriceOracleConfig \<Rightarrow> int" where
  "staleFallbackTtlMs cfg =
     max (cacheTtlMs cfg) (case cfg_staleFallbackTtlMs cfg of None \<Rightarrow> 300000 | Some ms \<Rightarrow> ms)"

definition warningCooldownMs :: "LivePriceOracleConfig \<Rightarrow> int" where
  "warningCooldownMs cfg =
     max 0 (case cfg_warningCooldownMs cfg of None \<Rightarrow> 300000 | Some ms \<Rightarrow> ms)"

text \<open>\<open>symbol.trim().toUpperCase()\<close>, and \<open>[...new Set(xs)]\<close>, which keeps first occurrences.\<close>

definition is_space :: "char \<Rightarrow> bool" where
  "is_space c \<longleftrightarrow> c \<in> set [CHR '' '', CHR 0x09, CHR 0x0A, CHR 0x0B, CHR 0x0C, CHR 0x0D]"

definition trim :: "string \<Rightarrow> string" where
  "trim s = rev (dropWhile is_space (rev (dropWhile is_space s)))"

definition toUpperCase_char :: "char \<Rightarrow> char" where
  "toUpperCase_char c =
     (case map_of (zip ''abcdefghijklmnopqrstuvwxyz'' ''ABCDEFGHIJKLMNOPQRSTUVWXYZ'') c of
        None \<Rightarrow> c | Some u \<Rightarrow> u)"

definition toUpperCase :: "string \<Rightarrow> string" where
  "toUpperCase s = map toUpperCase_char s"

definition normalize :: "string \<Rightarrow> string" where
  "normalize symbol = toUpperCase (trim symbol)"

definition unique :: "'a list \<Rightarrow> 'a list" where
  "unique xs = rev (remdups (rev xs))"

definition normalizeSymbols :: "string list \<Rightarrow> string list" where
  "normalizeSymbols symbols = unique (map normalize symbols)"

definition writeCache :: "LivePriceOracle \<Rightarrow> World \<Rightarrow> string \<Rightarrow> real \<Rightarrow> int \<Rightarrow> LivePriceOracle" where
  "writeCache orc w symbol v ttlMs =
     (let normalized = normalize symbol; now = clock w in
      orc\<lparr>cache := (cache orc)(normalized \<mapsto> \<lparr>entry_value = v, expiresAt = now + ttlMs\<rparr>)\<rparr>)"

definition readCachedValue :: "LivePriceOracle \<Rightarrow> World \<Rightarrow> string \<Rightarrow> bool \<Rightarrow> real option" where
  "readCachedValue orc w symbol allowStale =
     (let normalized = normalize symbol in
      (case cache orc normalized of
         None \<Rightarrow> None
       | Some cached \<Rightarrow>
           if \<not> allowStale \<and> expiresAt cached \<le> clock w then None
           else Some (entry_value cached)))"

fun readCachedSnapshot_from ::
  "LivePriceOracle \<Rightarrow> World \<Rightarrow> bool \<Rightarrow> string list \<Rightarrow> (string \<times> real) list \<Rightarrow> (string \<times> real) list option" where
  "readCachedSnapshot_from orc w allowStale [] result = Some result"
| "readCachedSnapshot_from orc w allowStale (symbol # rest) result =
     (case readCachedValue orc w symbol allowStale of
        None \<Rightarrow> None
      | Some v \<Rightarrow> readCachedSnapshot_from orc w allowStale rest (AList.update symbol v result))"

definition readCachedSnapshot ::
  "LivePriceOracle \<Rightarrow> World \<Rightarrow> string list \<Rightarrow> bool \<Rightarrow> (string \<times> real) list option" where
  "readCachedSnapshot orc w symbols allowStale =
     readCachedSnapshot_from orc w allowStale symbols []"

definition writeCacheSnapshot ::
  "LivePriceOracle \<Rightarrow> World \<Rightarrow> (string \<times> real) list \<Rightarrow> int \<Rightarrow> LivePriceOracle" where
  "writeCacheSnapshot orc w vals ttlMs =
     fold (\<lambda>(symbol, v) acc. writeCache acc w symbol v ttlMs) vals orc"

definition warnWithCooldown ::
  "LivePriceOracleConfig \<Rightarrow> string \<Rightarrow> string \<Rightarrow> LivePriceOracle \<times> World \<Rightarrow> LivePriceOracle \<times> World" where
  "warnWithCooldown cfg key msg ow =
     (case ow of (orc, w) \<Rightarrow>
        if warningCooldownMs cfg \<le> 0 then (orc, w\<lparr>warnLog := warnLog w @ [msg]\<rparr>)
        else
          let nowMs = clock w;
              lastLoggedAt = (case warningLastLoggedAt orc key of None \<Rightarrow> 0 | Some t \<Rightarrow> t)
          in if nowMs - lastLoggedAt < warningCooldownMs cfg then (orc, w)
             else (orc\<lparr>warningLastLoggedAt := (warningLastLoggedAt orc)(key \<mapsto> nowMs)\<rparr>,
                   w\<lparr>warnLog := warnLog w @ [msg]\<rparr>))"

text \<open>
  The pieces of \<open>fetchPrices\<close>: the error of the cooldown branch, the \<open>ids\<close> array (the
  first symbol without an id throws) and the loop over the payload.
\<close>

definition cooldown_error :: "int \<Rightarrow> int \<Rightarrow> js_error" where
  "cooldown_error untilMs nowMs =
     (let waitSeconds = max 1 \<lceil>real_of_int (untilMs - nowMs) / 1000\<rceil> in
      Error (''CoinGecko rate-limit cooldown active ('' @ show_int waitSeconds @ ''s remaining).''))"

fun lookup_ids :: "LivePriceOracleConfig \<Rightarrow> string list \<Rightarrow> js_error + string list" where
  "lookup_ids cfg [] = Inr []"
| "lookup_ids cfg (symbol # rest) =
     (case coingeckoIdBySymbol cfg symbol of
        None \<Rightarrow> Inl (Error (''Missing CoinGecko id mapping for symbol: '' @ symbol))
      | Some i \<Rightarrow>
          if i = [] then Inl (Error (''Missing CoinGecko id mapping for symbol: '' @ symbol))
          else (case lookup_ids cfg rest of
                  Inl e \<Rightarrow> Inl e
                | Inr ids \<Rightarrow> Inr (i # ids)))"

fun read_prices ::
  "(string \<Rightarrow> usd) \<Rightarrow> (string \<times> string) list \<Rightarrow> (string \<times> real) list \<Rightarrow> js_error + (string \<times> real) list" where
  "read_prices payload [] result = Inr result"
| "read_prices payload ((symbol, i) # rest) result =
     (case payload i of
        UsdNumber v \<Rightarrow>
          if v \<le> 0 then Inl (Error (''Invalid CoinGecko USD price for '' @ symbol @ '' ('' @ i @ '').''))
          else read_prices payload rest (AList.update symbol v result)
      | _ \<Rightarrow> Inl (Error (''Invalid CoinGecko USD price for '' @ symbol @ '' ('' @ i @ '').'')))"

definition response_ok :: "nat \<Rightarrow> bool" where
  "response_ok status \<longleftrightarrow> 200 \<le> status \<and> status \<le> 299"

definition fetchPrices ::
  "LivePriceOracleConfig \<Rightarrow> Net \<Rightarrow> string list \<Rightarrow> LivePriceOracle \<times> World
     \<Rightarrow> (js_error + (string \<times> real) list) \<times> LivePriceOracle \<times> World" where
  "fetchPrices cfg net symbols ow =
     (case ow of (orc, w) \<Rightarrow>
        let uniqueSymbols = unique (map normalize symbols) in
        if uniqueSymbols = [] then
          (Inl (Error ''Price fetch requested with empty symbol set.''), orc, w)
        else
          let nowMs = clock w in
          if nowMs < rateLimitedUntilMs orc then
            (Inl (cooldown_error (rateLimitedUntilMs orc) nowMs), orc, w)
          else
            (case lookup_ids cfg uniqueSymbols of
               Inl e \<Rightarrow> (Inl e, orc, w)
             | Inr ids \<Rightarrow>
                 let w1 = w\<lparr>clock := clock w + int (latencyMs net), httpLog := httpLog w @ [ids]\<rparr> in
                 (case reply net of
                    FetchRejected m \<Rightarrow> (Inl (Error m), orc, w1)
                  | HttpResponse status body \<Rightarrow>
                      if \<not> response_ok status then
                        (Inl (Error (''CoinGecko returned '' @ show_nat status)),
                         (if status = 429
                          then orc\<lparr>rateLimitedUntilMs := clock w1 + rateLimitCooldownMs cfg\<rparr>
                          else orc),
                         w1)
                      else
                        (case body of
                           BodyUnreadable m \<Rightarrow> (Inl (Error m), orc, w1)
                         | BodyJson payload \<Rightarrow>
                             (read_prices payload (zip uniqueSymbols ids) [], orc, w1)))))"

definition getPriceUsd ::
  "LivePriceOracleConfig \<Rightarrow> Net \<Rightarrow> string \<Rightarrow> LivePriceOracle \<times> World
     \<Rightarrow> (js_error + real) \<times> LivePriceOracle \<times> World" where
  "getPriceUsd cfg net symbol ow =
     (case ow of (orc, w) \<Rightarrow>
        let normalized = normalize symbol in
        (case readCachedValue orc w normalized False of
          Some freshCached \<Rightarrow>
            (Inr freshCached,
             orc\<lparr>telemetry := (telemetry orc)\<lparr>cacheFreshHits := cacheFreshHits (telemetry orc) + 1\<rparr>\<rparr>,
             w)
        | None \<Rightarrow>
            (case fetchPrices cfg net [normalized] (orc, w) of (fetched, o1, w1) \<Rightarrow>
               let attempt =
                 (case fetched of
                    Inl e \<Rightarrow> Inl e
                  | Inr vals \<Rightarrow>
                      (case map_of vals normalized of
                         None \<Rightarrow> Inl (Error (''Live price unavailable for '' @ normalized @ ''.''))
                       | Some v \<Rightarrow> Inr v))
               in (case attempt of
                    Inr v \<Rightarrow>
                      let o2 = writeCache o1 w1 normalized v (cacheTtlMs cfg) in
                      (Inr v,
                       o2\<lparr>telemetry := (telemetry o2)\<lparr>networkFetchSuccesses := networkFetchSuccesses (telemetry o2) + 1\<rparr>\<rparr>,
                       w1)
                  | Inl error \<Rightarrow>
                      let o2 = o1\<lparr>telemetry := (telemetry o1)\<lparr>fetchFailures := fetchFailures (telemetry o1) + 1\<rparr>\<rparr> in
                      (case readCachedValue o2 w1 normalized True of
                         Some staleCached \<Rightarrow>
                           let o3 = o2\<lparr>telemetry := (telemetry o2)\<lparr>staleFallbackHits := staleFallbackHits (telemetry o2) + 1\<rparr>\<rparr>;
                               o4 = writeCache o3 w1 normalized staleCached (staleFallbackTtlMs cfg);
                               warned = warnWithCooldown cfg (''single:'' @ normalized)
                                  (''[price-oracle] Using stale cached price for '' @ normalized @ '': '' @ message error)
                                  (o4, w1)
                           in (Inr staleCached, warned)
                       | None \<Rightarrow> (Inl error, o2, w1))))))"

text \<open>\<open>Object.fromEntries\<close>.\<close>

definition fromEntries :: "(string \<times> 'a) list \<Rightarrow> (string \<times> 'a) list" where
  "fromEntries kvs = fold (\<lambda>(k, v) acc. AList.update k v acc) kvs []"

definition getStablePricesUsd ::
  "LivePriceOracleConfig \<Rightarrow> Net \<Rightarrow> LivePriceOracle \<times> World
     \<Rightarrow> (js_error + (string \<times> real) list) \<times> LivePriceOracle \<times> World" where
  "getStablePricesUsd cfg net ow =
     (case ow of (orc, w) \<Rightarrow>
        let stable = normalizeSymbols (stableSymbols cfg) in
        (case readCachedSnapshot orc w stable False of
          Some freshCached \<Rightarrow>
            (Inr freshCached,
             orc\<lparr>telemetry := (telemetry orc)\<lparr>cacheFreshHits := cacheFreshHits (telemetry orc) + 1\<rparr>\<rparr>,
             w)
        | None \<Rightarrow>
            (case fetchPrices cfg net stable (orc, w) of
               (Inr vals, o1, w1) \<Rightarrow>
                 let o2 = writeCacheSnapshot o1 w1 vals (cacheTtlMs cfg) in
                 (Inr vals,
                  o2\<lparr>telemetry := (telemetry o2)\<lparr>networkFetchSuccesses := networkFetchSuccesses (telemetry o2) + 1\<rparr>\<rparr>,
                  w1)
             | (Inl error, o1, w1) \<Rightarrow>
                 let o2 = o1\<lparr>telemetry := (telemetry o1)\<lparr>fetchFailures := fetchFailures (telemetry o1) + 1\<rparr>\<rparr> in
                 (case readCachedSnapshot o2 w1 stable True of
                    Some fallback \<Rightarrow>
                      let o3 = o2\<lparr>telemetry := (telemetry o2)\<lparr>stableFallbackHits := stableFallbackHits (telemetry o2) + 1\<rparr>\<rparr>;
                          o4 = writeCacheSnapshot o3 w1 fallback (staleFallbackTtlMs cfg);
                          warned = warnWithCooldown cfg ''stable:fallback''
                             (''[price-oracle] Using stale cached stable prices: '' @ message error)
                             (o4, w1)
                      in (Inr fallback, warned)
                  | None \<Rightarrow>
                      let hardFallback = fromEntries (map (\<lambda>symbol. (symbol, 1)) stable);
                          o3 = o2\<lparr>telemetry := (telemetry o2)\<lparr>stableFallbackHits := stableFallbackHits (telemetry o2) + 1\<rparr>\<rparr>;
                          o4 = writeCacheSnapshot o3 w1 hardFallback (staleFallbackTtlMs cfg);
                          warned = warnWithCooldown cfg ''stable:hard-fallback''
                             (''[price-oracle] Falling back to $1.00 stable prices (no cache): '' @ message error)
                             (o4, w1)
                      in (Inr hardFallback, warned)))))"

definition getTelemetrySnapshot :: "LivePriceOracle \<Rightarrow> PriceOracleTelemetry" where
  "getTelemetrySnapshot orc = telemetry orc"



text \<open>The upstream fetch fails: \<open>fetchPrices\<close> throws, for whichever reason.\<close>

definition fetch_fails ::
  "LivePriceOracleConfig \<Rightarrow> Net \<Rightarrow> string list \<Rightarrow> LivePriceOracle \<times> World \<Rightarrow> bool" where
  "fetch_fails cfg net symbols ow \<longleftrightarrow> isl (fst (fetchPrices cfg net symbols ow))"

text \<open>
  A session with the oracle: lookups one after the other, each after a wait and each with
  the answer the upstream would give it.
\<close>

datatype call = GetPriceUsd string | GetStablePricesUsd

datatype answer = Price "js_error + real" | StablePrices "js_error + (string \<times> real) list"



definition waits :: "(nat \<times> Net \<times> call) list \<Rightarrow> int" where
  "waits steps = sum_list (map (\<lambda>(wait, net, c). int wait) steps)"


text \<open>
  A configuration with two stable symbols and the default cooldown and stale-fallback
  settings, three states of the oracle, and three upstreams: unreachable, rate limiting,
  and answering.
\<close>

definition example_cfg :: LivePriceOracleConfig where
  "example_cfg =
     \<lparr>baseUrl = ''https://api.coingecko.com/api/v3'',
      stableSymbols = [''USDC'', '' ausd ''],
      coingeckoIdBySymbol = [''USDC'' \<mapsto> ''usd-coin'', ''AUSD'' \<mapsto> ''agora-dollar'', ''MON'' \<mapsto> ''monad''],
      timeoutMs = 8000, cacheTtlMs = 30000,
      cfg_rateLimitCooldownMs = None, cfg_staleFallbackTtlMs = None, cfg_warningCooldownMs = None\<rparr>"

definition example_world :: World where
  "example_world = \<lparr>clock = 1000000, httpLog = [], warnLog = []\<rparr>"

definition stale_oracle :: LivePriceOracle where
  "stale_oracle =
     LivePriceOracle_new\<lparr>cache :=
       [''USDC'' \<mapsto> \<lparr>entry_value = 999 / 1000, expiresAt = 900000\<rparr>,
        ''AUSD'' \<mapsto> \<lparr>entry_value = 1001 / 1000, expiresAt = 900000\<rparr>]\<rparr>"

definition partial_oracle :: LivePriceOracle where
  "partial_oracle =
     LivePriceOracle_new\<lparr>cache := [''USDC'' \<mapsto> \<lparr>entry_value = 98 / 100, expiresAt = 900000\<rparr>]\<rparr>"

definition net_down :: Net where
  "net_down = \<lparr>latencyMs = 8000, reply = FetchRejected ''fetch failed''\<rparr>"

definition net_429 :: Net where
  "net_429 = \<lparr>latencyMs = 120, reply = HttpResponse 429 (BodyUnreadable [])\<rparr>"

definition net_ok :: Net where
  "net_ok =
     \<lparr>latencyMs = 100,
      reply = HttpResponse 200 (BodyJson (\<lambda>i.
        if i = ''usd-coin'' then UsdNumber 1
        else if i = ''agora-dollar'' then UsdNumber 1
        else if i = ''monad'' then UsdNumber (3 / 100)
        else UsdAbsent))\<rparr>"

definition armed_oracle :: LivePriceOracle where
  "armed_oracle = LivePriceOracle_new\<lparr>rateLimitedUntilMs := 1300120\<rparr>"

definition armed_world :: World where
  "armed_world = \<lparr>clock = 1000120, httpLog = [[''monad'']], warnLog = []\<rparr>"

section \<open>Migration report (bot/src/migration-report.ts)\<close>

text \<open>
  \<open>main\<close> reads its surroundings through \<open>Platform\<close>: the environment variables, the
  constants of the configuration module (\<open>TOKENS.USDC\<close>, \<open>POOLS\<close>, \<open>RUNTIME\<close>), the three
  library functions it calls (\<open>isAddress\<close> and \<open>formatUnits\<close> of viem, \<open>Number\<close> on a
  string, \<open>None\<close> when the result is not finite), the contract reads, the status
  endpoints, the file system and the date. A contract read or a \<open>fetch\<close> that rejects is
  \<open>Inl\<close>. \<open>main\<close> returns \<open>Inl\<close> when its promise rejects (nothing is printed then) and
  otherwise the report, the path written, the lines printed and the exit code. The
  four reads under \<open>Promise.all\<close> are taken in their order in the array. A balance is kept
  as the number whose decimal digits \<open>balanceRaw\<close> holds. The field \<open>id\<close> of a check row is
  \<open>check_id\<close>, the rows' \<open>poolId\<close> and \<open>lpToken\<close> are \<open>row_poolId\<close> and \<open>row_lpToken\<close>, the
  endpoint's \<open>reason\<close> is \<open>endpoint_reason\<close>, and its \<open>stateCounts\<close> are the three fields
  \<open>snapshots\<close>, \<open>decisions\<close> and \<open>tweets\<close>.
\<close>

datatype CheckStatus = PASS | WARN | FAIL

record CheckRow =
  check_id :: string
  status :: CheckStatus
  detail :: string

record PoolBalanceRow =
  row_poolId :: string
  row_lpToken :: string
  balanceRaw :: nat
  balanceFormatted :: string

record VaultSnapshot =
  address :: string
  usdcBalanceRaw :: nat
  usdcBalanceFormatted :: string
  poolLpBalances :: "PoolBalanceRow list"
  hasLpExposure :: bool
  supportsUserFlow :: bool
  depositToken :: "string option"
  totalUserSharesRaw :: "nat option"
  hasOpenLpPosition :: "bool option"

datatype json =
  JNull | JBool bool | JNumber real | JString string | JArray "json list"
  | JObject "(string \<times> json) list"

record EndpointSnapshot =
  url :: string
  httpStatus :: nat
  healthy :: "bool option"
  ready :: "bool option"
  endpoint_reason :: "string option"
  runtime :: "json option"
  snapshots :: "nat option"
  decisions :: "nat option"
  tweets :: "nat option"

record Report =
  generatedAt :: string
  chainId :: nat
  rpcUrl :: string
  oldVault :: VaultSnapshot
  newVault :: VaultSnapshot
  oldService :: "EndpointSnapshot option"
  newService :: "EndpointSnapshot option"
  checks :: "CheckRow list"

datatype endpoint_reply = EndpointRejected string | EndpointResponse nat "json option"

datatype printed = Line string | Json Report

record Platform =
  env :: "string \<rightharpoonup> string"
  isAddress :: "string \<Rightarrow> bool"
  toNumber :: "string \<Rightarrow> real option"
  formatUnits :: "nat \<Rightarrow> nat \<Rightarrow> string"
  TOKENS_USDC :: string
  POOLS :: "PoolConfig list"
  RUNTIME_chainId :: nat
  RUNTIME_rpcUrl :: string
  balanceOf :: "string \<Rightarrow> string \<Rightarrow> js_error + nat"
  read_depositToken :: "string \<Rightarrow> js_error + string"
  read_totalUserShares :: "string \<Rightarrow> js_error + nat"
  read_hasOpenLpPosition :: "string \<Rightarrow> js_error + bool"
  fetchState :: "string \<Rightarrow> string option \<Rightarrow> endpoint_reply"
  writeFile :: "string \<Rightarrow> js_error option"
  nowIso :: string

record Finished =
  report :: Report
  written :: "string option"
  stdout :: "printed list"
  exitCode :: nat

definition env_trimmed :: "Platform \<Rightarrow> string \<Rightarrow> string option" where
  "env_trimmed p name = map_option trim (env p name)"

definition getRequiredAddress :: "Platform \<Rightarrow> string \<Rightarrow> js_error + string" where
  "getRequiredAddress p name =
     (case env_trimmed p name of
        None \<Rightarrow> Inl (Error (''Missing required env var: '' @ name))
      | Some raw \<Rightarrow>
          if raw = [] then Inl (Error (''Missing required env var: '' @ name))
          else if \<not> isAddress p raw then Inl (Error (''Invalid address in '' @ name @ '': '' @ raw))
          else Inr raw)"

text \<open>
  \<open>getOptionalUrl\<close> is \<open>process.env[name]?.trim()\<close> when that is truthy (set and not
  empty after trimming) and \<open>null\<close> otherwise. The same test stands behind the \<open>||\<close>
  chain of \<open>getAuthToken\<close>, \<open>raw ? Number(raw) : 6\<close> and the report path, which are
  written with it.
\<close>

definition getOptionalUrl :: "Platform \<Rightarrow> string \<Rightarrow> string option" where
  "getOptionalUrl p name =
     (case env_trimmed p name of
        None \<Rightarrow> None
      | Some raw \<Rightarrow> if raw = [] then None else Some raw)"

definition getAuthToken :: "Platform \<Rightarrow> string" where
  "getAuthToken p =
     (case getOptionalUrl p ''MIGRATION_BOT_STATE_AUTH_TOKEN'' of
        Some t \<Rightarrow> t
      | None \<Rightarrow>
          (case getOptionalUrl p ''BOT_STATE_AUTH_TOKEN'' of
             Some t \<Rightarrow> t
           | None \<Rightarrow> []))"

definition getUsdcDecimals :: "Platform \<Rightarrow> nat" where
  "getUsdcDecimals p =
     (case getOptionalUrl p ''USDC_DECIMALS'' of
        None \<Rightarrow> 6
      | Some raw \<Rightarrow>
          (case toNumber p raw of
             None \<Rightarrow> 6
           | Some parsed \<Rightarrow> if parsed < 0 then 6 else nat \<lfloor>parsed\<rfloor>))"

fun isRecord :: "json \<Rightarrow> bool" where
  "isRecord (JObject kvs) = True"
| "isRecord (JArray xs) = True"
| "isRecord _ = False"

fun property :: "json \<Rightarrow> string \<Rightarrow> json option" where
  "property (JObject kvs) key = map_of (rev kvs) key"
| "property _ key = None"

definition asArrayLength :: "json option \<Rightarrow> string \<Rightarrow> nat option" where
  "asArrayLength v key =
     (case v of
        None \<Rightarrow> None
      | Some obj \<Rightarrow>
          (case property obj key of
             Some (JArray xs) \<Rightarrow> Some (length xs)
           | _ \<Rightarrow> None))"

definition pushCheck :: "CheckRow list \<Rightarrow> string \<Rightarrow> CheckStatus \<Rightarrow> string \<Rightarrow> CheckRow list" where
  "pushCheck rows i s d = rows @ [\<lparr>check_id = i, status = s, detail = d\<rparr>]"

fun readPoolBalances ::
  "Platform \<Rightarrow> string \<Rightarrow> nat \<Rightarrow> PoolConfig list \<Rightarrow> js_error + PoolBalanceRow list" where
  "readPoolBalances p vaultAddress usdcDecimals [] = Inr []"
| "readPoolBalances p vaultAddress usdcDecimals (pl # rest) =
     (case balanceOf p (lpToken pl) vaultAddress of
        Inl e \<Rightarrow> Inl e
      | Inr balance \<Rightarrow>
          (case readPoolBalances p vaultAddress usdcDecimals rest of
             Inl e \<Rightarrow> Inl e
           | Inr rows \<Rightarrow>
               Inr (\<lparr>row_poolId = pool_id pl, row_lpToken = lpToken pl, balanceRaw = balance,
                     balanceFormatted = formatUnits p balance usdcDecimals\<rparr> # rows)))"

definition readVaultSnapshot :: "Platform \<Rightarrow> string \<Rightarrow> nat \<Rightarrow> js_error + VaultSnapshot" where
  "readVaultSnapshot p vaultAddress usdcDecimals =
     (case balanceOf p (TOKENS_USDC p) vaultAddress of
        Inl e \<Rightarrow> Inl e
      | Inr usdcBalance \<Rightarrow>
          (case readPoolBalances p vaultAddress usdcDecimals (POOLS p) of
             Inl e \<Rightarrow> Inl e
           | Inr rows \<Rightarrow>
               Inr \<lparr>address = vaultAddress,
                    usdcBalanceRaw = usdcBalance,
                    usdcBalanceFormatted = formatUnits p usdcBalance usdcDecimals,
                    poolLpBalances = rows,
                    hasLpExposure = list_ex (\<lambda>row. balanceRaw row > 0) rows,
                    supportsUserFlow =
                      (case read_depositToken p vaultAddress of Inl e \<Rightarrow> False | Inr t \<Rightarrow> True),
                    depositToken =
                      (case read_depositToken p vaultAddress of Inl e \<Rightarrow> None | Inr t \<Rightarrow> Some t),
                    totalUserSharesRaw =
                      (case read_totalUserShares p vaultAddress of Inl e \<Rightarrow> None | Inr n \<Rightarrow> Some n),
                    hasOpenLpPosition =
                      (case read_hasOpenLpPosition p vaultAddress of Inl e \<Rightarrow> None | Inr b \<Rightarrow> Some b)\<rparr>))"

definition readStateEndpoint :: "Platform \<Rightarrow> string \<Rightarrow> string \<Rightarrow> js_error + EndpointSnapshot" where
  "readStateEndpoint p u authToken =
     (let headers = (if authToken = [] then None else Some authToken) in
      case fetchState p u headers of
        EndpointRejected m \<Rightarrow> Inl (Error m)
      | EndpointResponse st body \<Rightarrow>
          let payload = (case body of None \<Rightarrow> JNull | Some j \<Rightarrow> j);
              obj = (if isRecord payload then Some payload else None);
              stateObj = (case obj of
                            None \<Rightarrow> None
                          | Some ob \<Rightarrow> (case property ob ''state'' of
                                         Some s \<Rightarrow> if isRecord s then Some s else None
                                       | None \<Rightarrow> None));
              runtimeObj = (case obj of
                              None \<Rightarrow> None
                            | Some ob \<Rightarrow> (case property ob ''runtime'' of
                                           Some r \<Rightarrow> if isRecord r then Some r else None
                                         | None \<Rightarrow> None))
          in Inr \<lparr>url = u,
                  httpStatus = st,
                  healthy = (case obj of
                               Some ob \<Rightarrow> (case property ob ''healthy'' of Some (JBool b) \<Rightarrow> Some b | _ \<Rightarrow> None)
                             | None \<Rightarrow> None),
                  ready = (case obj of
                             Some ob \<Rightarrow> (case property ob ''ready'' of Some (JBool b) \<Rightarrow> Some b | _ \<Rightarrow> None)
                           | None \<Rightarrow> None),
                  endpoint_reason = (case obj of
                             Some ob \<Rightarrow> (case property ob ''reason'' of Some (JString s) \<Rightarrow> Some s | _ \<Rightarrow> None)
                           | None \<Rightarrow> None),
                  runtime = runtimeObj,
                  snapshots = asArrayLength stateObj ''snapshots'',
                  decisions = asArrayLength stateObj ''decisions'',
                  tweets = asArrayLength stateObj ''tweets''\<rparr>)"

definition readOptionalEndpoint ::
  "Platform \<Rightarrow> string option \<Rightarrow> string \<Rightarrow> js_error + EndpointSnapshot option" where
  "readOptionalEndpoint p stateUrl authToken =
     (case stateUrl of
        None \<Rightarrow> Inr None
      | Some u \<Rightarrow> (case readStateEndpoint p u authToken of Inl e \<Rightarrow> Inl e | Inr s \<Rightarrow> Inr (Some s)))"

definition toLowerCase :: "string \<Rightarrow> string" where
  "toLowerCase s =
     map (\<lambda>c. case map_of (zip ''ABCDEFGHIJKLMNOPQRSTUVWXYZ'' ''abcdefghijklmnopqrstuvwxyz'') c of
                None \<Rightarrow> c | Some l \<Rightarrow> l) s"

definition show_bool :: "bool \<Rightarrow> string" where
  "show_bool b = (if b then ''true'' else ''false'')"

definition show_nullable_bool :: "bool option \<Rightarrow> string" where
  "show_nullable_bool b = (case b of None \<Rightarrow> ''null'' | Some v \<Rightarrow> show_bool v)"

definition show_status :: "CheckStatus \<Rightarrow> string" where
  "show_status s = (case s of PASS \<Rightarrow> ''PASS'' | WARN \<Rightarrow> ''WARN'' | FAIL \<Rightarrow> ''FAIL'')"

definition padEnd :: "nat \<Rightarrow> string \<Rightarrow> string" where
  "padEnd n s = s @ replicate (n - length s) (CHR '' '')"

definition buildChecks ::
  "Platform \<Rightarrow> VaultSnapshot \<Rightarrow> VaultSnapshot \<Rightarrow> EndpointSnapshot option \<Rightarrow> EndpointSnapshot option
     \<Rightarrow> CheckRow list" where
  "buildChecks p oldSnapshot newSnapshot oldEndpoint newEndpoint =
     (let c0 = [];
          c1 = pushCheck c0 ''old_vault.lp_drained''
                 (if hasLpExposure oldSnapshot then FAIL else PASS)
                 (if hasLpExposure oldSnapshot
                  then ''Old vault still has LP exposure. Exit to USDC before cutover.''
                  else ''Old vault LP balances are zero.'');
          c2 = pushCheck c1 ''new_vault.user_flow''
                 (if supportsUserFlow newSnapshot then PASS else FAIL)
                 (if supportsUserFlow newSnapshot
                  then ''New vault exposes user deposit/withdraw flow.''
                  else ''New vault does not expose v2 user flow functions.'');
          c3 = pushCheck c2 ''new_vault.deposit_token''
                 (if map_option toLowerCase (depositToken newSnapshot) = Some (toLowerCase (TOKENS_USDC p))
                  then PASS else WARN)
                 (''newVault.depositToken=''
                    @ (case depositToken newSnapshot of None \<Rightarrow> ''n/a'' | Some t \<Rightarrow> t)
                    @ '' expected='' @ TOKENS_USDC p);
          c4 = (case newEndpoint of
                  Some ep \<Rightarrow>
                    let isReady = (httpStatus ep = 200 \<and> healthy ep = Some True \<and> ready ep = Some True) in
                    pushCheck c3 ''railway.new_service_ready''
                      (if isReady then PASS else FAIL)
                      (''status='' @ show_nat (httpStatus ep)
                         @ '', healthy='' @ show_nullable_bool (healthy ep)
                         @ '', ready='' @ show_nullable_bool (ready ep)
                         @ '', reason='' @ (case endpoint_reason ep of None \<Rightarrow> ''n/a'' | Some r \<Rightarrow> r))
                | None \<Rightarrow>
                    pushCheck c3 ''railway.new_service_ready'' WARN
                      ''MIGRATION_NEW_BOT_STATE_URL not set; readiness could not be verified.'');
          c5 = (case oldEndpoint of
                  Some ep \<Rightarrow>
                    let reachable = (httpStatus ep \<ge> 200 \<and> httpStatus ep < 500) in
                    pushCheck c4 ''railway.old_service_reachable''
                      (if reachable then PASS else WARN)
                      (''status='' @ show_nat (httpStatus ep)
                         @ '', healthy='' @ show_nullable_bool (healthy ep)
                         @ '', ready='' @ show_nullable_bool (ready ep))
                | None \<Rightarrow>
                    pushCheck c4 ''railway.old_service_reachable'' WARN
                      ''MIGRATION_OLD_BOT_STATE_URL not set; rollback endpoint was not checked.'')
      in c5)"

definition printReport :: "Report \<Rightarrow> string \<Rightarrow> printed list" where
  "printReport rep outputPath =
     [Line ''=== Sentryield Migration Report ==='',
      Line (''old vault: '' @ address (oldVault rep)),
      Line (''  usdc: '' @ usdcBalanceFormatted (oldVault rep)
              @ '' ('' @ show_nat (usdcBalanceRaw (oldVault rep)) @ '' raw)'')]
     @ map (\<lambda>row. Line (''  lp['' @ row_poolId row @ '']: '' @ balanceFormatted row
                         @ '' ('' @ show_nat (balanceRaw row) @ '' raw) token='' @ row_lpToken row))
         (poolLpBalances (oldVault rep))
     @ [Line (''new vault: '' @ address (newVault rep)),
        Line (''  usdc: '' @ usdcBalanceFormatted (newVault rep)
                @ '' ('' @ show_nat (usdcBalanceRaw (newVault rep)) @ '' raw)''),
        Line (''  userFlow: '' @ show_bool (supportsUserFlow (newVault rep))
                @ '' totalUserShares=''
                @ (case totalUserSharesRaw (newVault rep) of None \<Rightarrow> ''n/a'' | Some n \<Rightarrow> show_nat n))]
     @ map (\<lambda>c. Line (padEnd 4 (show_status (status c)) @ '' | '' @ check_id c @ '' | '' @ detail c))
         (checks rep)
     @ (if outputPath = [] then [] else [Line (''Report written to: '' @ outputPath)])
     @ [Line ''JSON_REPORT_START'', Json rep, Line ''JSON_REPORT_END'']"

definition main :: "Platform \<Rightarrow> js_error + Finished" where
  "main p =
     (let usdcDecimals = getUsdcDecimals p in
      case getRequiredAddress p ''MIGRATION_OLD_VAULT_ADDRESS'' of
        Inl e \<Rightarrow> Inl e
      | Inr oldVaultAddress \<Rightarrow>
      (case getRequiredAddress p ''MIGRATION_NEW_VAULT_ADDRESS'' of
        Inl e \<Rightarrow> Inl e
      | Inr newVaultAddress \<Rightarrow>
      (let oldStateUrl = getOptionalUrl p ''MIGRATION_OLD_BOT_STATE_URL'';
           newStateUrl = getOptionalUrl p ''MIGRATION_NEW_BOT_STATE_URL'';
           authToken = getAuthToken p
       in
      case readVaultSnapshot p oldVaultAddress usdcDecimals of
        Inl e \<Rightarrow> Inl e
      | Inr oldSnapshot \<Rightarrow>
      (case readVaultSnapshot p newVaultAddress usdcDecimals of
        Inl e \<Rightarrow> Inl e
      | Inr newSnapshot \<Rightarrow>
      (case readOptionalEndpoint p oldStateUrl authToken of
        Inl e \<Rightarrow> Inl e
      | Inr oldEndpoint \<Rightarrow>
      (case readOptionalEndpoint p newStateUrl authToken of
        Inl e \<Rightarrow> Inl e
      | Inr newEndpoint \<Rightarrow>
      (let rows = buildChecks p oldSnapshot newSnapshot oldEndpoint newEndpoint;
           rep = \<lparr>generatedAt = nowIso p, chainId = RUNTIME_chainId p, rpcUrl = RUNTIME_rpcUrl p,
                  oldVault = oldSnapshot, newVault = newSnapshot,
                  oldService = oldEndpoint, newService = newEndpoint, checks = rows\<rparr>;
           outputPath = (case getOptionalUrl p ''MIGRATION_REPORT_PATH'' of None \<Rightarrow> [] | Some path \<Rightarrow> path)
       in
      case (if outputPath = [] then None else writeFile p outputPath) of
        Some e \<Rightarrow> Inl e
      | None \<Rightarrow>
          Inr \<lparr>report = rep,
               written = (if outputPath = [] then None else Some outputPath),
               stdout = printReport rep outputPath,
               exitCode = (if list_ex (\<lambda>row. status row = FAIL) rows then 1 else 0)\<rparr>)))))))"


definition example_platform :: "endpoint_reply \<Rightarrow> Platform" where
  "example_platform old_reply =
     \<lparr>env = [''MIGRATION_OLD_VAULT_ADDRESS'' \<mapsto> ''0x0a'',
             ''MIGRATION_NEW_VAULT_ADDRESS'' \<mapsto> ''0x0b'',
             ''MIGRATION_OLD_BOT_STATE_URL'' \<mapsto> ''https://old-bot.example/state''],
      isAddress = (\<lambda>a. True),
      toNumber = (\<lambda>s. None),
      formatUnits = (\<lambda>amount decimals. show_nat amount),
      TOKENS_USDC = ''0x754704bc'',
      POOLS = [],
      RUNTIME_chainId = 143,
      RUNTIME_rpcUrl = ''https://rpc.monad.xyz'',
      balanceOf = (\<lambda>token account. Inr 0),
      read_depositToken = (\<lambda>vault. if vault = ''0x0b'' then Inr ''0x754704BC'' else Inl (Error ''reverted'')),
      read_totalUserShares = (\<lambda>vault. if vault = ''0x0b'' then Inr 0 else Inl (Error ''reverted'')),
      read_hasOpenLpPosition = (\<lambda>vault. if vault = ''0x0b'' then Inr False else Inl (Error ''reverted'')),
      fetchState = (\<lambda>u headers. old_reply),
      writeFile = (\<lambda>path. None),
      nowIso = ''2026-01-01T00:00:00.000Z''\<rparr>"


section \<open>Properties of the guards and the yield math\<close>

subsection \<open>Depeg guard\<close>




subsection \<open>APR-cliff guard\<close>





subsection \<open>Rotation payback\<close>


section \<open>The disabled Dex1 adapter\<close>

lemma Dex1Adapter_reads_disabled:
  "Dex1Adapter_fetchPoolState p = Inl (Error ''Dex1Adapter is disabled in live runtime.'')"
  "Dex1Adapter_estimatePriceImpactBps p a = Inl (Error ''Dex1Adapter is disabled in live runtime.'')"
  "Dex1Adapter_estimateRotationCostBps p q a = Inl (Error ''Dex1Adapter is disabled in live runtime.'')"
  by (simp_all add: Dex1Adapter_fetchPoolState_def Dex1Adapter_estimatePriceImpactBps_def
      Dex1Adapter_estimateRotationCostBps_def)

lemma Dex1Adapter_builders_succeed:
  "\<not> isl (Dex1Adapter_buildEnterRequest enterInput)"
  "\<not> isl (Dex1Adapter_buildExitRequest exitInput)"
  by (simp_all add: Dex1Adapter_buildEnterRequest_def Dex1Adapter_buildExitRequest_def)

text \<open>
  C1 says that every method of the disabled adapter fails, the two request builders
  included. The three reads do fail with the "disabled" error; the builders return a
  complete request for every input, here for a request intent on a pool routed to
  \<open>dex1\<close>.
\<close>

theorem Dex1Adapter_builds_requests:
  "Dex1Adapter_buildEnterRequest dex1_enter_input =
     Inr \<lparr>enter_target = ''0x02'', enter_pool = ''0x03'', enter_tokenIn = ''0x01'',
          enter_lpToken = ''0x04'', enter_amountIn = 1000000, enter_minOut = 990000,
          enter_deadline = 1800, enter_data = ''0x'', enter_pair = ''USDC/MON'',
          enter_protocol = ''Dex1'', enter_netApyBps = 292,
          enter_intendedHoldSeconds = 86400\<rparr> \<and>
   Dex1Adapter_buildExitRequest dex1_exit_input =
     Inr \<lparr>exit_target = ''0x02'', exit_pool = ''0x03'', exit_lpToken = ''0x04'',
          exit_tokenOut = ''0x01'', exit_amountIn = 1000000, exit_minOut = 990000,
          exit_deadline = 1800, exit_data = ''0x'', exit_pair = ''USDC/MON'',
          exit_protocol = ''Dex1''\<rparr>"
  by (simp add: Dex1Adapter_buildEnterRequest_def Dex1Adapter_buildExitRequest_def
      dex1_enter_input_def dex1_exit_input_def dex1_pool_def)

section \<open>Properties of the price oracle\<close>

subsection \<open>Symbols, cache and frame lemmas\<close>

lemma toUpperCase_char_idem: "toUpperCase_char (toUpperCase_char c) = toUpperCase_char c"
  by (simp add: toUpperCase_char_def)

lemma is_space_toUpperCase_char: "is_space (toUpperCase_char c) = is_space c"
  by (simp add: toUpperCase_char_def is_space_def)

lemma dropWhile_end_idem:
  assumes "xs = [] \<or> \<not> P (hd xs)"
  shows "dropWhile P (rev (dropWhile P (rev xs))) = rev (dropWhile P (rev xs))"
proof (cases "rev (dropWhile P (rev xs)) = []")
  case True
  show ?thesis unfolding True by simp
next
  case False
  have "rev xs = takeWhile P (rev xs) @ dropWhile P (rev xs)"
    by simp
  then have "xs = rev (dropWhile P (rev xs)) @ rev (takeWhile P (rev xs))"
    by (metis rev_append rev_rev_ident)
  then have "hd xs = hd (rev (dropWhile P (rev xs)))"
    using False by (metis hd_append2)
  moreover have "xs \<noteq> []"
    using False by auto
  ultimately have "\<not> P (hd (rev (dropWhile P (rev xs))))"
    using assms by simp
  then show ?thesis
    by (simp add: dropWhile_eq_self_iff)
qed

lemma trim_idem: "trim (trim s) = trim s"
proof -
  have "dropWhile is_space s = [] \<or> \<not> is_space (hd (dropWhile is_space s))"
    using hd_dropWhile by blast
  then have "dropWhile is_space (trim s) = trim s"
    unfolding trim_def by (rule dropWhile_end_idem)
  then show ?thesis
    by (simp add: trim_def)
qed

lemma trim_toUpperCase: "trim (toUpperCase s) = toUpperCase (trim s)"
  by (simp add: trim_def toUpperCase_def dropWhile_map rev_map comp_def is_space_toUpperCase_char)

lemma normalize_idem: "normalize (normalize s) = normalize s"
  by (simp add: normalize_def trim_toUpperCase trim_idem) (simp add: toUpperCase_def toUpperCase_char_idem)

lemma set_unique [simp]: "set (unique xs) = set xs"
  by (simp add: unique_def)

lemma distinct_unique [simp]: "distinct (unique xs)"
  by (simp add: unique_def)

lemma unique_Nil_iff [simp]: "unique xs = [] \<longleftrightarrow> xs = []"
  by (metis set_unique set_empty)

lemma unique_distinct: "distinct xs \<Longrightarrow> unique xs = xs"
  by (simp add: unique_def distinct_remdups_id)

lemma normalize_in_normalizeSymbols:
  "s \<in> set (normalizeSymbols xs) \<Longrightarrow> normalize s = s"
  by (auto simp: normalizeSymbols_def normalize_idem)

lemma unique_normalizeSymbols:
  "unique (map normalize (normalizeSymbols xs)) = normalizeSymbols xs"
proof -
  have "map normalize (normalizeSymbols xs) = normalizeSymbols xs"
    by (rule map_idI) (rule normalize_in_normalizeSymbols)
  moreover have "distinct (normalizeSymbols xs)"
    by (simp add: normalizeSymbols_def)
  ultimately show ?thesis
    by (simp add: unique_distinct)
qed

lemma normalizeSymbols_Nil_iff: "normalizeSymbols xs = [] \<longleftrightarrow> xs = []"
  by (simp add: normalizeSymbols_def)

lemma readCachedValue_stale:
  "readCachedValue orc w s True = map_option entry_value (cache orc (normalize s))"
  by (simp add: readCachedValue_def split: option.splits)

lemma readCachedValue_absent:
  "cache orc (normalize s) = None \<Longrightarrow> readCachedValue orc w s allowStale = None"
  by (simp add: readCachedValue_def)

lemma readCachedValue_telemetry [simp]:
  "readCachedValue (orc\<lparr>telemetry := t\<rparr>) w s a = readCachedValue orc w s a"
  by (simp add: readCachedValue_def)

lemma readCachedSnapshot_from_None_iff:
  "readCachedSnapshot_from orc w a syms acc = None \<longleftrightarrow>
     (\<exists>s \<in> set syms. readCachedValue orc w s a = None)"
  by (induction syms arbitrary: acc) (auto split: option.splits)

lemma readCachedSnapshot_None_iff:
  "readCachedSnapshot orc w syms a = None \<longleftrightarrow>
     (\<exists>s \<in> set syms. readCachedValue orc w s a = None)"
  by (simp add: readCachedSnapshot_def readCachedSnapshot_from_None_iff)

lemma readCachedSnapshot_from_telemetry [simp]:
  "readCachedSnapshot_from (orc\<lparr>telemetry := t\<rparr>) w a syms acc = readCachedSnapshot_from orc w a syms acc"
  by (induction syms arbitrary: acc) (auto split: option.splits)

lemma readCachedSnapshot_telemetry [simp]:
  "readCachedSnapshot (orc\<lparr>telemetry := t\<rparr>) w syms a = readCachedSnapshot orc w syms a"
  by (simp add: readCachedSnapshot_def)

lemma writeCache_frame [simp]:
  "rateLimitedUntilMs (writeCache orc w s v ttl) = rateLimitedUntilMs orc"
  "telemetry (writeCache orc w s v ttl) = telemetry orc"
  "warningLastLoggedAt (writeCache orc w s v ttl) = warningLastLoggedAt orc"
  by (simp_all add: writeCache_def)

lemma cache_writeCache:
  "cache (writeCache orc w s v ttl) =
     (cache orc)(normalize s \<mapsto> \<lparr>entry_value = v, expiresAt = clock w + ttl\<rparr>)"
  by (simp add: writeCache_def)

lemma writeCacheSnapshot_Nil [simp]: "writeCacheSnapshot orc w [] ttl = orc"
  by (simp add: writeCacheSnapshot_def)

lemma writeCacheSnapshot_Cons [simp]:
  "writeCacheSnapshot orc w ((s, v) # rest) ttl =
     writeCacheSnapshot (writeCache orc w s v ttl) w rest ttl"
  by (simp add: writeCacheSnapshot_def)

lemma writeCacheSnapshot_rateLimitedUntilMs [simp]:
  "rateLimitedUntilMs (writeCacheSnapshot orc w vals ttl) = rateLimitedUntilMs orc"
  by (induction vals arbitrary: orc) auto

lemma writeCacheSnapshot_telemetry [simp]:
  "telemetry (writeCacheSnapshot orc w vals ttl) = telemetry orc"
  by (induction vals arbitrary: orc) auto

lemma writeCacheSnapshot_warningLastLoggedAt [simp]:
  "warningLastLoggedAt (writeCacheSnapshot orc w vals ttl) = warningLastLoggedAt orc"
  by (induction vals arbitrary: orc) auto

lemma cache_writeCacheSnapshot_const:
  "cache (writeCacheSnapshot orc w (map (\<lambda>s. (s, c)) syms) ttl) k =
     (if k \<in> normalize ` set syms then Some \<lparr>entry_value = c, expiresAt = clock w + ttl\<rparr>
      else cache orc k)"
  by (induction syms arbitrary: orc) (auto simp: cache_writeCache)

lemma update_fresh: "k \<notin> fst ` set acc \<Longrightarrow> AList.update k v acc = acc @ [(k, v)]"
  by (induction acc) auto

lemma fold_update_distinct:
  "distinct (map fst kvs) \<Longrightarrow> fst ` set kvs \<inter> fst ` set acc = {} \<Longrightarrow>
   fold (\<lambda>(k, v) acc. AList.update k v acc) kvs acc = acc @ kvs"
proof (induction kvs arbitrary: acc)
  case Nil
  then show ?case by simp
next
  case (Cons kv kvs)
  obtain k v where kv: "kv = (k, v)" by (cases kv)
  from Cons.prems have fresh: "k \<notin> fst ` set acc"
    by (auto simp: kv)
  have "fold (\<lambda>(k, v) acc. AList.update k v acc) kvs (acc @ [(k, v)]) = (acc @ [(k, v)]) @ kvs"
    using Cons.prems by (intro Cons.IH) (auto simp: kv)
  then show ?case
    by (simp add: kv update_fresh [OF fresh])
qed

lemma fromEntries_distinct: "distinct (map fst kvs) \<Longrightarrow> fromEntries kvs = kvs"
  using fold_update_distinct [of kvs "[]"] by (simp add: fromEntries_def)

lemma hardFallback_eq:
  "fromEntries (map (\<lambda>symbol. (symbol, c)) (normalizeSymbols xs)) =
     map (\<lambda>symbol. (symbol, c)) (normalizeSymbols xs)"
  by (rule fromEntries_distinct) (simp add: comp_def normalizeSymbols_def)

lemma warnWithCooldown_frame:
  "warnWithCooldown cfg key msg (orc, w) = (oracle', w') \<Longrightarrow>
     cache oracle' = cache orc \<and> telemetry oracle' = telemetry orc \<and>
     rateLimitedUntilMs oracle' = rateLimitedUntilMs orc \<and>
     clock w' = clock w \<and> httpLog w' = httpLog w"
  by (auto simp: warnWithCooldown_def Let_def split: if_splits)


lemma fetchPrices_frame:
  "fetchPrices cfg net symbols (orc, w) = (r, o1, w1) \<Longrightarrow>
     cache o1 = cache orc \<and> telemetry o1 = telemetry orc \<and>
     warningLastLoggedAt o1 = warningLastLoggedAt orc \<and> warnLog w1 = warnLog w"
  by (auto simp: fetchPrices_def Let_def split: if_splits sum.splits reply.splits body.splits)

lemma fetchPrices_single_key:
  "fetchPrices cfg net [s] (orc, w) = (Inr vals, o1, w1) \<Longrightarrow>
     \<exists>v. vals = [(normalize s, v)]"
  by (auto simp: fetchPrices_def Let_def unique_def
      split: if_splits sum.splits reply.splits body.splits option.splits usd.splits)

subsection \<open>The paths through the two lookups\<close>

lemma stable_snapshot_missing:
  assumes "\<exists>s \<in> set (stableSymbols cfg). cache orc (normalize s) = None"
  shows "readCachedSnapshot orc w (normalizeSymbols (stableSymbols cfg)) allowStale = None"
proof -
  from assms obtain s where s: "s \<in> set (stableSymbols cfg)" "cache orc (normalize s) = None"
    by blast
  have "normalize s \<in> set (normalizeSymbols (stableSymbols cfg))"
    using s(1) by (simp add: normalizeSymbols_def)
  moreover have "readCachedValue orc w (normalize s) allowStale = None"
    using s(2) by (simp add: readCachedValue_absent normalize_idem)
  ultimately show ?thesis
    unfolding readCachedSnapshot_None_iff by blast
qed

lemma getStablePricesUsd_hard_fallback:
  assumes missing: "\<exists>s \<in> set (stableSymbols cfg). cache orc (normalize s) = None"
      and fails: "fetchPrices cfg net (normalizeSymbols (stableSymbols cfg)) (orc, w) = (Inl e, o1, w1)"
  shows "getStablePricesUsd cfg net (orc, w) =
     (Inr (map (\<lambda>symbol. (symbol, 1)) (normalizeSymbols (stableSymbols cfg))),
      warnWithCooldown cfg ''stable:hard-fallback''
        (''[price-oracle] Falling back to $1.00 stable prices (no cache): '' @ message e)
        (writeCacheSnapshot
           (o1\<lparr>telemetry := (telemetry o1)\<lparr>fetchFailures := fetchFailures (telemetry o1) + 1,
                                            stableFallbackHits := stableFallbackHits (telemetry o1) + 1\<rparr>\<rparr>)
           w1 (map (\<lambda>symbol. (symbol, 1)) (normalizeSymbols (stableSymbols cfg)))
           (staleFallbackTtlMs cfg), w1))"
proof -
  have fresh: "readCachedSnapshot orc w (normalizeSymbols (stableSymbols cfg)) False = None"
    using missing by (rule stable_snapshot_missing)
  have "cache o1 = cache orc"
    using fetchPrices_frame [OF fails] by simp
  with missing have "\<exists>s \<in> set (stableSymbols cfg). cache o1 (normalize s) = None"
    by simp
  then have stale: "readCachedSnapshot o1 w1 (normalizeSymbols (stableSymbols cfg)) True = None"
    by (rule stable_snapshot_missing)
  show ?thesis
    by (simp add: getStablePricesUsd_def Let_def fresh fails stale hardFallback_eq)
qed

lemma stable_hard_fallback_result:
  assumes missing: "\<exists>s \<in> set (stableSymbols cfg). cache orc (normalize s) = None"
      and fails: "fetch_fails cfg net (normalizeSymbols (stableSymbols cfg)) (orc, w)"
      and result: "getStablePricesUsd cfg net (orc, w) = (r, orc', w')"
  shows "r = Inr (map (\<lambda>s. (s, 1)) (normalizeSymbols (stableSymbols cfg)))"
    and "\<forall>s \<in> set (normalizeSymbols (stableSymbols cfg)).
           cache orc' s = Some \<lparr>entry_value = 1, expiresAt = clock w' + staleFallbackTtlMs cfg\<rparr>"
proof -
  let ?stable = "normalizeSymbols (stableSymbols cfg)"
  obtain e o1 w1 where f: "fetchPrices cfg net ?stable (orc, w) = (Inl e, o1, w1)"
    using fails unfolding fetch_fails_def
    by (metis isl_def prod.collapse)
  let ?o4 = "writeCacheSnapshot
           (o1\<lparr>telemetry := (telemetry o1)\<lparr>fetchFailures := fetchFailures (telemetry o1) + 1,
                                            stableFallbackHits := stableFallbackHits (telemetry o1) + 1\<rparr>\<rparr>)
           w1 (map (\<lambda>symbol. (symbol, 1)) ?stable) (staleFallbackTtlMs cfg)"
  from getStablePricesUsd_hard_fallback [OF missing f] result
  have r: "r = Inr (map (\<lambda>s. (s, 1)) ?stable)"
    and warned: "warnWithCooldown cfg ''stable:hard-fallback''
        (''[price-oracle] Falling back to $1.00 stable prices (no cache): '' @ message e) (?o4, w1) = (orc', w')"
    by simp_all
  show "r = Inr (map (\<lambda>s. (s, 1)) ?stable)" by (rule r)
  from warnWithCooldown_frame [OF warned]
  have c: "cache orc' = cache ?o4" and t: "clock w' = clock w1" by simp_all
  show "\<forall>s \<in> set ?stable.
           cache orc' s = Some \<lparr>entry_value = 1, expiresAt = clock w' + staleFallbackTtlMs cfg\<rparr>"
  proof
    fix s assume s: "s \<in> set ?stable"
    then have "s \<in> normalize ` set ?stable"
      using normalize_in_normalizeSymbols [OF s] by force
    then show "cache orc' s = Some \<lparr>entry_value = 1, expiresAt = clock w' + staleFallbackTtlMs cfg\<rparr>"
      by (simp add: c t cache_writeCacheSnapshot_const)
  qed
qed

lemma fetch_failsE:
  assumes "fetch_fails cfg net symbols ow"
  obtains e o1 w1 where "fetchPrices cfg net symbols ow = (Inl e, o1, w1)"
  using assms unfolding fetch_fails_def by (metis isl_def prod.collapse)

lemma getPriceUsd_fresh:
  assumes "readCachedValue orc w (normalize symbol) False = Some v"
  shows "getPriceUsd cfg net symbol (orc, w) =
     (Inr v, orc\<lparr>telemetry := (telemetry orc)\<lparr>cacheFreshHits := cacheFreshHits (telemetry orc) + 1\<rparr>\<rparr>, w)"
  using assms by (simp add: getPriceUsd_def Let_def)

lemma getPriceUsd_fetched:
  assumes "readCachedValue orc w (normalize symbol) False = None"
      and "fetchPrices cfg net [normalize symbol] (orc, w) = (Inr vals, o1, w1)"
  shows "\<exists>v. vals = [(normalize symbol, v)] \<and>
     getPriceUsd cfg net symbol (orc, w) =
       (Inr v,
        (writeCache o1 w1 (normalize symbol) v (cacheTtlMs cfg))
          \<lparr>telemetry := (telemetry o1)\<lparr>networkFetchSuccesses := networkFetchSuccesses (telemetry o1) + 1\<rparr>\<rparr>,
        w1)"
proof -
  from fetchPrices_single_key [OF assms(2)] obtain v where "vals = [(normalize symbol, v)]"
    by (auto simp: normalize_idem)
  then show ?thesis
    using assms by (simp add: getPriceUsd_def Let_def)
qed

lemma getPriceUsd_failed:
  assumes "readCachedValue orc w (normalize symbol) False = None"
      and "fetchPrices cfg net [normalize symbol] (orc, w) = (Inl e, o1, w1)"
  shows "getPriceUsd cfg net symbol (orc, w) =
     (case cache orc (normalize symbol) of
        None \<Rightarrow>
          (Inl e, o1\<lparr>telemetry := (telemetry o1)\<lparr>fetchFailures := fetchFailures (telemetry o1) + 1\<rparr>\<rparr>, w1)
      | Some entry \<Rightarrow>
          (Inr (entry_value entry),
           warnWithCooldown cfg (''single:'' @ normalize symbol)
             (''[price-oracle] Using stale cached price for '' @ normalize symbol @ '': '' @ message e)
             (writeCache
                (o1\<lparr>telemetry := (telemetry o1)\<lparr>fetchFailures := fetchFailures (telemetry o1) + 1,
                                                 staleFallbackHits := staleFallbackHits (telemetry o1) + 1\<rparr>\<rparr>)
                w1 (normalize symbol) (entry_value entry) (staleFallbackTtlMs cfg), w1)))"
proof -
  have "cache o1 = cache orc"
    using fetchPrices_frame [OF assms(2)] by simp
  then show ?thesis
    using assms
    by (simp add: getPriceUsd_def Let_def readCachedValue_stale normalize_idem split: option.splits)
qed

lemma getStablePricesUsd_fresh:
  assumes "readCachedSnapshot orc w (normalizeSymbols (stableSymbols cfg)) False = Some vals"
  shows "getStablePricesUsd cfg net (orc, w) =
     (Inr vals, orc\<lparr>telemetry := (telemetry orc)\<lparr>cacheFreshHits := cacheFreshHits (telemetry orc) + 1\<rparr>\<rparr>, w)"
  using assms by (simp add: getStablePricesUsd_def Let_def)

lemma getStablePricesUsd_fetched:
  assumes "readCachedSnapshot orc w (normalizeSymbols (stableSymbols cfg)) False = None"
      and "fetchPrices cfg net (normalizeSymbols (stableSymbols cfg)) (orc, w) = (Inr vals, o1, w1)"
  shows "getStablePricesUsd cfg net (orc, w) =
     (Inr vals,
      (writeCacheSnapshot o1 w1 vals (cacheTtlMs cfg))
        \<lparr>telemetry := (telemetry o1)\<lparr>networkFetchSuccesses := networkFetchSuccesses (telemetry o1) + 1\<rparr>\<rparr>,
      w1)"
  using assms by (simp add: getStablePricesUsd_def Let_def)

lemma getStablePricesUsd_failed:
  assumes "readCachedSnapshot orc w (normalizeSymbols (stableSymbols cfg)) False = None"
      and "fetchPrices cfg net (normalizeSymbols (stableSymbols cfg)) (orc, w) = (Inl e, o1, w1)"
  shows "getStablePricesUsd cfg net (orc, w) =
     (case readCachedSnapshot o1 w1 (normalizeSymbols (stableSymbols cfg)) True of
        Some fallback \<Rightarrow>
          (Inr fallback,
           warnWithCooldown cfg ''stable:fallback''
             (''[price-oracle] Using stale cached stable prices: '' @ message e)
             (writeCacheSnapshot
                (o1\<lparr>telemetry := (telemetry o1)\<lparr>fetchFailures := fetchFailures (telemetry o1) + 1,
                                                 stableFallbackHits := stableFallbackHits (telemetry o1) + 1\<rparr>\<rparr>)
                w1 fallback (staleFallbackTtlMs cfg), w1))
      | None \<Rightarrow>
          (Inr (map (\<lambda>symbol. (symbol, 1)) (normalizeSymbols (stableSymbols cfg))),
           warnWithCooldown cfg ''stable:hard-fallback''
             (''[price-oracle] Falling back to $1.00 stable prices (no cache): '' @ message e)
             (writeCacheSnapshot
                (o1\<lparr>telemetry := (telemetry o1)\<lparr>fetchFailures := fetchFailures (telemetry o1) + 1,
                                                 stableFallbackHits := stableFallbackHits (telemetry o1) + 1\<rparr>\<rparr>)
                w1 (map (\<lambda>symbol. (symbol, 1)) (normalizeSymbols (stableSymbols cfg)))
                (staleFallbackTtlMs cfg), w1)))"
  using assms
  by (simp add: getStablePricesUsd_def Let_def hardFallback_eq split: option.splits)

subsection \<open>Fetch failures\<close>

text \<open>
  C2: when the upstream fetch fails and the cache has no entry for the requested
  symbols, \<open>getStablePricesUsd\<close> returns the price 1 for every configured stable symbol
  (normalised, without duplicates) and no error, while \<open>getPriceUsd\<close> for a symbol
  with no cache entry fails with the error of the fetch.
\<close>

theorem no_cache_fetch_failure:
  "((\<forall>s \<in> set (stableSymbols cfg). cache orc (normalize s) = None) \<longrightarrow>
      fetch_fails cfg net (normalizeSymbols (stableSymbols cfg)) (orc, w) \<longrightarrow>
      fst (getStablePricesUsd cfg net (orc, w)) =
        Inr (map (\<lambda>s. (s, 1)) (normalizeSymbols (stableSymbols cfg)))) \<and>
   (cache orc (normalize symbol) = None \<longrightarrow>
      fst (fetchPrices cfg net [normalize symbol] (orc, w)) = Inl e \<longrightarrow>
      fst (getPriceUsd cfg net symbol (orc, w)) = Inl e)"
proof (intro conjI impI)
  assume none: "\<forall>s \<in> set (stableSymbols cfg). cache orc (normalize s) = None"
    and fails: "fetch_fails cfg net (normalizeSymbols (stableSymbols cfg)) (orc, w)"
  show "fst (getStablePricesUsd cfg net (orc, w)) =
        Inr (map (\<lambda>s. (s, 1)) (normalizeSymbols (stableSymbols cfg)))"
  proof (cases "stableSymbols cfg")
    case Nil
    then show ?thesis
      by (simp add: getStablePricesUsd_def normalizeSymbols_def unique_def readCachedSnapshot_def)
  next
    case (Cons s rest)
    with none have missing: "\<exists>s \<in> set (stableSymbols cfg). cache orc (normalize s) = None"
      by auto
    obtain r orc' w' where res: "getStablePricesUsd cfg net (orc, w) = (r, orc', w')"
      by (metis prod.collapse)
    from stable_hard_fallback_result(1) [OF missing fails res] res show ?thesis
      by simp
  qed
next
  assume none: "cache orc (normalize symbol) = None"
    and fails: "fst (fetchPrices cfg net [normalize symbol] (orc, w)) = Inl e"
  obtain o1 w1 where f: "fetchPrices cfg net [normalize symbol] (orc, w) = (Inl e, o1, w1)"
    using fails by (metis prod.collapse)
  have fresh: "readCachedValue orc w (normalize symbol) False = None"
    using none by (simp add: readCachedValue_absent normalize_idem)
  show "fst (getPriceUsd cfg net symbol (orc, w)) = Inl e"
    by (simp add: getPriceUsd_failed [OF fresh f] none)
qed

lemma staleFallbackTtlMs_ge: "cacheTtlMs cfg \<le> staleFallbackTtlMs cfg"
  by (simp add: staleFallbackTtlMs_def)

text \<open>
  C7: if the cache holds only an expired entry for the symbol and the upstream fetch
  fails, \<open>getPriceUsd\<close> returns the expired entry's price and writes the entry again
  with the time of the failure plus \<open>staleFallbackTtlMs\<close>, a setting of its own that is
  at least \<open>cacheTtlMs\<close>.
\<close>

theorem stale_fallback_rearms:
  assumes entry: "cache orc (normalize symbol) = Some entry"
      and expired: "expiresAt entry \<le> clock w"
      and fails: "fetch_fails cfg net [normalize symbol] (orc, w)"
      and result: "getPriceUsd cfg net symbol (orc, w) = (r, orc', w')"
  shows "r = Inr (entry_value entry) \<and>
         cache orc' (normalize symbol) =
           Some \<lparr>entry_value = entry_value entry, expiresAt = clock w' + staleFallbackTtlMs cfg\<rparr> \<and>
         cacheTtlMs cfg \<le> staleFallbackTtlMs cfg"
proof -
  from fails obtain e o1 w1 where f: "fetchPrices cfg net [normalize symbol] (orc, w) = (Inl e, o1, w1)"
    by (rule fetch_failsE)
  have fresh: "readCachedValue orc w (normalize symbol) False = None"
    using entry expired by (simp add: readCachedValue_def normalize_idem)
  let ?o4 = "writeCache
                (o1\<lparr>telemetry := (telemetry o1)\<lparr>fetchFailures := fetchFailures (telemetry o1) + 1,
                                                 staleFallbackHits := staleFallbackHits (telemetry o1) + 1\<rparr>\<rparr>)
                w1 (normalize symbol) (entry_value entry) (staleFallbackTtlMs cfg)"
  from getPriceUsd_failed [OF fresh f] entry result
  have r: "r = Inr (entry_value entry)"
    and warned: "warnWithCooldown cfg (''single:'' @ normalize symbol)
             (''[price-oracle] Using stale cached price for '' @ normalize symbol @ '': '' @ message e)
             (?o4, w1) = (orc', w')"
    by simp_all
  from warnWithCooldown_frame [OF warned]
  have "cache orc' = cache ?o4" and "clock w' = clock w1" by simp_all
  then have "cache orc' (normalize symbol) =
           Some \<lparr>entry_value = entry_value entry, expiresAt = clock w' + staleFallbackTtlMs cfg\<rparr>"
    by (simp add: cache_writeCache normalize_idem)
  with r show ?thesis
    by (simp add: staleFallbackTtlMs_ge)
qed

text \<open>
  C10: if the upstream fetch fails and some configured stable symbol has no cache entry
  at all, \<open>getStablePricesUsd\<close> returns 1 for every configured stable symbol and
  overwrites the cache entry of each of them, also of those that had a cached
  price, with 1 under the stale-fallback TTL.
\<close>

theorem stable_hard_fallback_discards_cache:
  assumes "\<exists>s \<in> set (stableSymbols cfg). cache orc (normalize s) = None"
      and "fetch_fails cfg net (normalizeSymbols (stableSymbols cfg)) (orc, w)"
      and "getStablePricesUsd cfg net (orc, w) = (r, orc', w')"
  shows "r = Inr (map (\<lambda>s. (s, 1)) (normalizeSymbols (stableSymbols cfg))) \<and>
         (\<forall>s \<in> set (normalizeSymbols (stableSymbols cfg)).
            cache orc' s = Some \<lparr>entry_value = 1, expiresAt = clock w' + staleFallbackTtlMs cfg\<rparr>)"
  using stable_hard_fallback_result [OF assms] by simp

lemmas oracle_eval =
  getPriceUsd_def getStablePricesUsd_def fetchPrices_def readCachedValue_def
  readCachedSnapshot_def writeCache_def writeCacheSnapshot_def warnWithCooldown_def
  cooldown_error_def response_ok_def fromEntries_def
  normalizeSymbols_def normalize_def trim_def toUpperCase_def toUpperCase_char_def is_space_def
  unique_def rateLimitCooldownMs_def staleFallbackTtlMs_def warningCooldownMs_def
  LivePriceOracle_new_def getTelemetrySnapshot_def fetch_fails_def
  show_int_def show_nat.simps digit_char_def Let_def

lemmas example_defs =
  example_cfg_def example_world_def stale_oracle_def partial_oracle_def
  net_down_def net_429_def net_ok_def armed_oracle_def armed_world_def

subsection \<open>Telemetry\<close>

lemma warnWithCooldown_telemetry [simp]:
  "telemetry (fst (warnWithCooldown cfg key msg (orc, w))) = telemetry orc"
  by (simp add: warnWithCooldown_def Let_def)

lemma getPriceUsd_telemetry:
  "getTelemetrySnapshot (fst (snd (getPriceUsd cfg net symbol (orc, w)))) =
     (let fresh = (readCachedValue orc w (normalize symbol) False \<noteq> None);
          failed = fetch_fails cfg net [normalize symbol] (orc, w);
          cached = (cache orc (normalize symbol) \<noteq> None);
          t = telemetry orc
      in \<lparr>cacheFreshHits = cacheFreshHits t + of_bool fresh,
          staleFallbackHits = staleFallbackHits t + of_bool (\<not> fresh \<and> failed \<and> cached),
          stableFallbackHits = stableFallbackHits t,
          networkFetchSuccesses = networkFetchSuccesses t + of_bool (\<not> fresh \<and> \<not> failed),
          fetchFailures = fetchFailures t + of_bool (\<not> fresh \<and> failed)\<rparr>)"
proof (cases "readCachedValue orc w (normalize symbol) False")
  case (Some v)
  show ?thesis
    by (cases "telemetry orc") (simp add: getPriceUsd_fresh [OF Some] Some getTelemetrySnapshot_def)
next
  case None
  obtain fetched o1 w1 where f: "fetchPrices cfg net [normalize symbol] (orc, w) = (fetched, o1, w1)"
    by (metis prod.collapse)
  have t: "telemetry o1 = telemetry orc"
    using fetchPrices_frame [OF f] by simp
  show ?thesis
  proof (cases fetched)
    case (Inl e)
    with f have f': "fetchPrices cfg net [normalize symbol] (orc, w) = (Inl e, o1, w1)" by simp
    then have failed: "fetch_fails cfg net [normalize symbol] (orc, w)"
      by (simp add: fetch_fails_def)
    show ?thesis
      by (cases "telemetry orc"; cases "cache orc (normalize symbol)")
        (simp_all add: getPriceUsd_failed [OF None f'] None failed t getTelemetrySnapshot_def)
  next
    case (Inr vals)
    with f have f': "fetchPrices cfg net [normalize symbol] (orc, w) = (Inr vals, o1, w1)" by simp
    then have ok: "\<not> fetch_fails cfg net [normalize symbol] (orc, w)"
      by (simp add: fetch_fails_def)
    from getPriceUsd_fetched [OF None f'] show ?thesis
      by (cases "telemetry orc") (auto simp: None ok t getTelemetrySnapshot_def)
  qed
qed

lemma getStablePricesUsd_telemetry:
  "getTelemetrySnapshot (fst (snd (getStablePricesUsd cfg net (orc, w)))) =
     (let stable = normalizeSymbols (stableSymbols cfg);
          fresh = (readCachedSnapshot orc w stable False \<noteq> None);
          failed = fetch_fails cfg net stable (orc, w);
          t = telemetry orc
      in \<lparr>cacheFreshHits = cacheFreshHits t + of_bool fresh,
          staleFallbackHits = staleFallbackHits t,
          stableFallbackHits = stableFallbackHits t + of_bool (\<not> fresh \<and> failed),
          networkFetchSuccesses = networkFetchSuccesses t + of_bool (\<not> fresh \<and> \<not> failed),
          fetchFailures = fetchFailures t + of_bool (\<not> fresh \<and> failed)\<rparr>)"
proof (cases "readCachedSnapshot orc w (normalizeSymbols (stableSymbols cfg)) False")
  case (Some vals)
  show ?thesis
    by (cases "telemetry orc") (simp add: getStablePricesUsd_fresh [OF Some] Some getTelemetrySnapshot_def)
next
  case None
  obtain fetched o1 w1
    where f: "fetchPrices cfg net (normalizeSymbols (stableSymbols cfg)) (orc, w) = (fetched, o1, w1)"
    by (metis prod.collapse)
  have t: "telemetry o1 = telemetry orc"
    using fetchPrices_frame [OF f] by simp
  show ?thesis
  proof (cases fetched)
    case (Inl e)
    with f have f': "fetchPrices cfg net (normalizeSymbols (stableSymbols cfg)) (orc, w) = (Inl e, o1, w1)"
      by simp
    then have failed: "fetch_fails cfg net (normalizeSymbols (stableSymbols cfg)) (orc, w)"
      by (simp add: fetch_fails_def)
    show ?thesis
      by (cases "telemetry orc";
          cases "readCachedSnapshot o1 w1 (normalizeSymbols (stableSymbols cfg)) True")
        (simp_all add: getStablePricesUsd_failed [OF None f'] None failed t getTelemetrySnapshot_def)
  next
    case (Inr vals)
    with f have f': "fetchPrices cfg net (normalizeSymbols (stableSymbols cfg)) (orc, w) = (Inr vals, o1, w1)"
      by simp
    then have ok: "\<not> fetch_fails cfg net (normalizeSymbols (stableSymbols cfg)) (orc, w)"
      by (simp add: fetch_fails_def)
    show ?thesis
      by (cases "telemetry orc")
        (simp add: getStablePricesUsd_fetched [OF None f'] None ok t getTelemetrySnapshot_def)
  qed
qed

text \<open>
  C9, as stated: every lookup served via stale-fallback increments \<open>staleFallbackHits\<close>,
  and \<open>stableFallbackHits\<close> counts the hard fallbacks to 1.0 only. It is not so for the
  stable batch: with expired entries for both stable symbols and an unreachable
  upstream, the batch is served from the stale entries, \<open>staleFallbackHits\<close> stays 0 and
  \<open>stableFallbackHits\<close> becomes 1.
\<close>

theorem stable_stale_fallback_counterexample:
  "fst (getStablePricesUsd example_cfg net_down (stale_oracle, example_world)) =
     Inr [(''USDC'', 999 / 1000), (''AUSD'', 1001 / 1000)] \<and>
   getTelemetrySnapshot stale_oracle =
     \<lparr>cacheFreshHits = 0, staleFallbackHits = 0, stableFallbackHits = 0,
      networkFetchSuccesses = 0, fetchFailures = 0\<rparr> \<and>
   getTelemetrySnapshot (fst (snd (getStablePricesUsd example_cfg net_down (stale_oracle, example_world)))) =
     \<lparr>cacheFreshHits = 0, staleFallbackHits = 0, stableFallbackHits = 1,
      networkFetchSuccesses = 0, fetchFailures = 1\<rparr>"
  by (simp add: oracle_eval example_defs)

text \<open>
  C9, amended: the telemetry snapshot is a copy of five cumulative counters, and each
  lookup adds to them as follows. \<open>getPriceUsd\<close>: a fresh hit adds 1 to \<open>cacheFreshHits\<close>;
  otherwise a successful fetch adds 1 to \<open>networkFetchSuccesses\<close>, and a failed one adds 1
  to \<open>fetchFailures\<close> and, when it is served from a cached entry, 1 to
  \<open>staleFallbackHits\<close>; \<open>stableFallbackHits\<close> is unchanged. \<open>getStablePricesUsd\<close>: the
  same for fresh hits, successes and failures; \<open>staleFallbackHits\<close> is unchanged, and every
  failed fetch adds 1 to \<open>stableFallbackHits\<close>, whether the batch is served from stale
  entries or by the hard fallback to 1.0.
\<close>

theorem telemetry_counts:
  "getTelemetrySnapshot (fst (snd (getPriceUsd cfg net symbol (orc, w)))) =
     (let fresh = (readCachedValue orc w (normalize symbol) False \<noteq> None);
          failed = fetch_fails cfg net [normalize symbol] (orc, w);
          cached = (cache orc (normalize symbol) \<noteq> None);
          t = getTelemetrySnapshot orc
      in \<lparr>cacheFreshHits = cacheFreshHits t + of_bool fresh,
          staleFallbackHits = staleFallbackHits t + of_bool (\<not> fresh \<and> failed \<and> cached),
          stableFallbackHits = stableFallbackHits t,
          networkFetchSuccesses = networkFetchSuccesses t + of_bool (\<not> fresh \<and> \<not> failed),
          fetchFailures = fetchFailures t + of_bool (\<not> fresh \<and> failed)\<rparr>) \<and>
   getTelemetrySnapshot (fst (snd (getStablePricesUsd cfg net (orc, w)))) =
     (let stable = normalizeSymbols (stableSymbols cfg);
          fresh = (readCachedSnapshot orc w stable False \<noteq> None);
          failed = fetch_fails cfg net stable (orc, w);
          t = getTelemetrySnapshot orc
      in \<lparr>cacheFreshHits = cacheFreshHits t + of_bool fresh,
          staleFallbackHits = staleFallbackHits t,
          stableFallbackHits = stableFallbackHits t + of_bool (\<not> fresh \<and> failed),
          networkFetchSuccesses = networkFetchSuccesses t + of_bool (\<not> fresh \<and> \<not> failed),
          fetchFailures = fetchFailures t + of_bool (\<not> fresh \<and> failed)\<rparr>)"
  using getPriceUsd_telemetry [of cfg net symbol orc w] getStablePricesUsd_telemetry [of cfg net orc w]
  by (simp add: getTelemetrySnapshot_def)

subsection \<open>Rate-limit cooldown\<close>






lemma waits_Cons [simp]: "waits ((wait, net, c) # rest) = int wait + waits rest"
  by (simp add: waits_def)

lemma waits_Nil [simp]: "waits [] = 0"
  by (simp add: waits_def)





subsection \<open>The claims at concrete inputs\<close>

lemma example_stable: "normalizeSymbols (stableSymbols example_cfg) = [''USDC'', ''AUSD'']"
  by (simp add: oracle_eval example_defs)

lemma normalize_examples:
  "normalize ''mon'' = ''MON''" "normalize ''usdc'' = ''USDC''"
  "normalize ''USDC'' = ''USDC''" "normalize '' ausd '' = ''AUSD''"
  by (simp_all add: oracle_eval)

theorem no_cache_fetch_failure_witness:
  "fst (getStablePricesUsd example_cfg net_down (LivePriceOracle_new, example_world)) =
     Inr [(''USDC'', 1), (''AUSD'', 1)] \<and>
   fst (getPriceUsd example_cfg net_down ''mon'' (LivePriceOracle_new, example_world)) =
     Inl (Error ''fetch failed'')"
proof -
  have h1: "\<forall>s \<in> set (stableSymbols example_cfg). cache LivePriceOracle_new (normalize s) = None"
    by (simp add: LivePriceOracle_new_def)
  have h2: "fetch_fails example_cfg net_down (normalizeSymbols (stableSymbols example_cfg))
              (LivePriceOracle_new, example_world)"
    by (simp add: oracle_eval example_defs)
  have h3: "cache LivePriceOracle_new (normalize ''mon'') = None"
    by (simp add: LivePriceOracle_new_def)
  have h4: "fst (fetchPrices example_cfg net_down [normalize ''mon''] (LivePriceOracle_new, example_world)) =
              Inl (Error ''fetch failed'')"
    by (simp add: oracle_eval example_defs)
  from no_cache_fetch_failure [of example_cfg LivePriceOracle_new net_down example_world
      "''mon''" "Error ''fetch failed''"] h1 h2 h3 h4
  show ?thesis
    by (simp add: example_stable)
qed

theorem stale_fallback_rearms_witness:
  "fst (getPriceUsd example_cfg net_down ''usdc'' (stale_oracle, example_world)) = Inr (999 / 1000) \<and>
   cache (fst (snd (getPriceUsd example_cfg net_down ''usdc'' (stale_oracle, example_world)))) ''USDC'' =
     Some \<lparr>entry_value = 999 / 1000, expiresAt = 1308000\<rparr> \<and>
   cacheTtlMs example_cfg = 30000 \<and> staleFallbackTtlMs example_cfg = 300000"
proof -
  let ?R = "getPriceUsd example_cfg net_down ''usdc'' (stale_oracle, example_world)"
  have h1: "cache stale_oracle (normalize ''usdc'') = Some \<lparr>entry_value = 999 / 1000, expiresAt = 900000\<rparr>"
    by (simp add: normalize_examples stale_oracle_def)
  have h2: "expiresAt \<lparr>entry_value = 999 / 1000, expiresAt = 900000\<rparr> \<le> clock example_world"
    by (simp add: example_world_def)
  have h3: "fetch_fails example_cfg net_down [normalize ''usdc''] (stale_oracle, example_world)"
    by (simp add: oracle_eval example_defs)
  have h4: "?R = (fst ?R, fst (snd ?R), snd (snd ?R))"
    by simp
  have t: "clock (snd (snd ?R)) = 1008000"
    by (simp add: oracle_eval example_defs)
  have ttl: "cacheTtlMs example_cfg = 30000" "staleFallbackTtlMs example_cfg = 300000"
    by (simp_all add: oracle_eval example_defs)
  from stale_fallback_rearms [OF h1 h2 h3 h4] show ?thesis
    by (simp add: t ttl normalize_examples)
qed

theorem stable_hard_fallback_discards_cache_witness:
  "cache partial_oracle ''USDC'' = Some \<lparr>entry_value = 98 / 100, expiresAt = 900000\<rparr> \<and>
   cache partial_oracle ''AUSD'' = None \<and>
   fst (getStablePricesUsd example_cfg net_down (partial_oracle, example_world)) =
     Inr [(''USDC'', 1), (''AUSD'', 1)] \<and>
   cache (fst (snd (getStablePricesUsd example_cfg net_down (partial_oracle, example_world)))) ''USDC'' =
     Some \<lparr>entry_value = 1, expiresAt = 1308000\<rparr> \<and>
   cache (fst (snd (getStablePricesUsd example_cfg net_down (partial_oracle, example_world)))) ''AUSD'' =
     Some \<lparr>entry_value = 1, expiresAt = 1308000\<rparr>"
proof -
  let ?R = "getStablePricesUsd example_cfg net_down (partial_oracle, example_world)"
  have c: "cache partial_oracle ''USDC'' = Some \<lparr>entry_value = 98 / 100, expiresAt = 900000\<rparr>"
    "cache partial_oracle ''AUSD'' = None"
    by (simp_all add: partial_oracle_def LivePriceOracle_new_def)
  have "cache partial_oracle (normalize '' ausd '') = None"
    by (simp add: normalize_examples c)
  then have h1: "\<exists>s \<in> set (stableSymbols example_cfg). cache partial_oracle (normalize s) = None"
    by (simp add: example_cfg_def)
  have h2: "fetch_fails example_cfg net_down (normalizeSymbols (stableSymbols example_cfg))
              (partial_oracle, example_world)"
    by (simp add: oracle_eval example_defs)
  have h3: "?R = (fst ?R, fst (snd ?R), snd (snd ?R))"
    by simp
  have t: "clock (snd (snd ?R)) = 1008000"
    by (simp add: oracle_eval example_defs)
  have ttl: "staleFallbackTtlMs example_cfg = 300000"
    by (simp add: oracle_eval example_defs)
  from stable_hard_fallback_discards_cache [OF h1 h2 h3] c show ?thesis
    by (simp add: t ttl example_stable)
qed



section \<open>Properties of the migration report\<close>

lemmas migration_eval =
  main_def getUsdcDecimals_def getRequiredAddress_def getOptionalUrl_def getAuthToken_def env_trimmed_def
  readVaultSnapshot_def readOptionalEndpoint_def readStateEndpoint_def buildChecks_def pushCheck_def
  asArrayLength_def toLowerCase_def show_nullable_bool_def show_bool_def
  trim_def is_space_def example_platform_def show_nat.simps digit_char_def Let_def

lemma old_service_check_never_fails:
  "\<exists>rows st d.
     buildChecks p oldSnapshot newSnapshot oldEndpoint newEndpoint =
       rows @ [\<lparr>check_id = ''railway.old_service_reachable'', status = st, detail = d\<rparr>] \<and>
     st \<noteq> FAIL"
  by (cases oldEndpoint) (simp_all add: buildChecks_def pushCheck_def Let_def)

lemma Json_in_printReport: "Json rep \<in> set (printReport rep outputPath)"
  by (simp add: printReport_def)

lemma main_prints_report:
  assumes "main p = Inr f"
  shows "Json (report f) \<in> set (stdout f)"
  using assms
  by (auto simp: main_def Let_def Json_in_printReport split: sum.splits option.splits)

lemma main_aborts_when_old_endpoint_rejects:
  assumes "getOptionalUrl p ''MIGRATION_OLD_BOT_STATE_URL'' = Some u"
      and "\<And>headers. fetchState p u headers = EndpointRejected m"
  shows "isl (main p)"
  using assms
  by (simp add: main_def readOptionalEndpoint_def readStateEndpoint_def Let_def
      split: sum.splits)

text \<open>
  C3 says that an unreachable old status endpoint gives the check
  \<open>railway.old_service_reachable\<close> the status WARN and that the report is still completed
  and printed. With \<open>MIGRATION_OLD_BOT_STATE_URL\<close> set, it is so when the endpoint answers
  with a status outside 200..499 (here 503). When the request itself fails (connection
  refused, DNS), \<open>readStateEndpoint\<close> has no \<open>catch\<close> around \<open>fetch\<close>: \<open>main\<close> rejects with
  the error of the request, there is no check row and nothing is printed.
\<close>

theorem old_endpoint_unreachable_aborts_report:
  "main (example_platform (EndpointRejected ''fetch failed'')) = Inl (Error ''fetch failed'') \<and>
   (case main (example_platform (EndpointResponse 503 None)) of
      Inl e \<Rightarrow> False
    | Inr f \<Rightarrow>
        last (checks (report f)) =
          \<lparr>check_id = ''railway.old_service_reachable'', status = WARN,
           detail = ''status=503, healthy=null, ready=null''\<rparr> \<and>
        exitCode f = 0 \<and> Json (report f) \<in> set (stdout f))"
  by (simp add: migration_eval Json_in_printReport)

end
